theory Spec2Isabelle
  imports Main
begin

section \<open>Hyperparameter mappings\<close>

text \<open>
  A hyperparameter value is a scalar or a nested mapping from option names to values.
  A Python dict literal is kept as an association list in the order it is written.
\<close>

datatype hval = HInt int | HStr string | HDict "(string \<times> hval) list"

text \<open>Reading an option of a mapping; a scalar has no options.\<close>

fun lookup :: "hval \<Rightarrow> string \<Rightarrow> hval option" where
  "lookup (HDict kvs) k = map_of kvs k"
| "lookup _ k = None"

fun keys :: "hval \<Rightarrow> string list" where
  "keys (HDict kvs) = map fst kvs"
| "keys _ = []"

text \<open>Reading along a path of option names, as in \<^verbatim>\<open>d['a']['b']\<close>.\<close>

fun lookup_path :: "hval \<Rightarrow> string list \<Rightarrow> hval option" where
  "lookup_path v [] = Some v"
| "lookup_path v (k # ks) = (case lookup v k of None \<Rightarrow> None | Some w \<Rightarrow> lookup_path w ks)"

section \<open>The example configuration (config_model.py)\<close>

definition num_units :: int where
  "num_units = 1000"

definition embedding_dim :: int where
  "embedding_dim = 500"

definition embedder :: hval where
  "embedder = HDict [(''dim'', HInt embedding_dim)]"

definition encoder :: hval where
  "encoder = HDict [(''rnn_cell_fw'', HDict [(''kwargs'', HDict [(''num_units'', HInt num_units)])])]"

definition decoder :: hval where
  "decoder = HDict
     [(''rnn_cell'', HDict [(''kwargs'', HDict [(''num_units'', HInt num_units)])]),
      (''attention'', HDict
         [(''kwargs'', HDict [(''num_units'', HInt num_units)]),
          (''attention_layer_size'', HInt num_units)])]"

section \<open>The decoder base class (rnn_decoder_base.py)\<close>

text \<open>
  Errors are values. \<open>Raised\<close> stands for any other error of a collaborator (the cell
  factory, the dynamic-decode driver), which the decoder lets through unchanged.
\<close>

datatype error = NotImplementedError | AttributeError | TypeError | Raised string

text \<open>
  The instance state: the attributes the class reads and writes. Objects of the tensor
  library (cells, helpers, states, variables, tensors) are opaque references of type
  \<open>'o\<close>. An attribute that nothing has set is \<open>None\<close> in \<open>self_hparams\<close> and
  \<open>self_cell\<close>, and reading it is an attribute error; the helper and the initial state
  hold Python's \<^verbatim>\<open>None\<close> as \<open>None\<close>.
\<close>

record 'o rnn_decoder_base =
  self_hparams :: "hval option"
  self_helper :: "'o option"
  self_initial_state :: "'o option"
  self_cell :: "'o option"

text \<open>
  What the class calls and does not implement, taken as parameters: the defaults of the
  cell configuration and the cell factory (\<^verbatim>\<open>txtgen.core.layers\<close>), the initialiser
  and the two registration hooks of the module base class
  (\<^verbatim>\<open>txtgen.modules.module_base\<close>), the mode flag (\<^verbatim>\<open>txtgen.context\<close>), the
  dynamic-decode driver of the tensor library, the trainable variables a cell reports and
  the batch size a helper reports. Each call that may raise returns its error as a value;
  for a call made for its effect, \<open>None\<close> says that it returned.

  \<open>ModuleBase_init\<close> is the base initialiser as line 32 calls it, on the name and the
  hyperparameters and without the instance: it cannot set anything on the instance, and
  whether it returns is its own matter (under Python 2 such a call is a type error).
\<close>

record 'o collaborators =
  default_rnn_cell_hparams :: hval
  ModuleBase_init :: "string \<Rightarrow> (string \<times> hval) list option \<Rightarrow> error option"
  get_rnn_cell :: "hval \<Rightarrow> error + 'o"
  is_train :: bool
  dynamic_decode :: "'o rnn_decoder_base \<Rightarrow> hval option \<Rightarrow> error + 'o \<times> 'o \<times> 'o"
  add_internal_trainable_variables :: "'o rnn_decoder_base \<Rightarrow> error option"
  trainable_variables :: "'o \<Rightarrow> error + 'o list"
  add_trainable_variable :: "'o rnn_decoder_base \<Rightarrow> 'o list \<Rightarrow> error option"
  helper_batch_size :: "'o \<Rightarrow> 'o"

text \<open>The calls a method makes to its collaborators and to the parameter tracking, in order.\<close>

datatype 'o call =
    Call_get_rnn_cell hval
  | Call_dynamic_decode "'o rnn_decoder_base" "hval option"
  | Call_add_internal_trainable_variables
  | Call_add_trainable_variable "'o list"

fun is_registration :: "'o call \<Rightarrow> bool" where
  "is_registration Call_add_internal_trainable_variables = True"
| "is_registration (Call_add_trainable_variable vs) = True"
| "is_registration _ = False"

fun maximum_iterations :: "'o call list \<Rightarrow> hval option list" where
  "maximum_iterations [] = []"
| "maximum_iterations (Call_dynamic_decode d b # cs) = b # maximum_iterations cs"
| "maximum_iterations (_ # cs) = maximum_iterations cs"

text \<open>
  Reading a hyperparameter of the instance, \<^verbatim>\<open>self.hparams.k\<close> or
  \<^verbatim>\<open>self._hparams.k\<close>: an attribute error when the instance has no hyperparameters or
  they have no such option.
\<close>

definition getattr_hparams :: "'o rnn_decoder_base \<Rightarrow> string \<Rightarrow> error + hval" where
  "getattr_hparams self k =
     (case self_hparams self of
        None \<Rightarrow> Inl AttributeError
      | Some hp \<Rightarrow> (case lookup hp k of None \<Rightarrow> Inl AttributeError | Some v \<Rightarrow> Inr v))"

subsection \<open>default_hparams\<close>

definition default_hparams :: "'o collaborators \<Rightarrow> hval" where
  "default_hparams env = HDict
     [(''rnn_cell'', default_rnn_cell_hparams env),
      (''max_decoding_length'', HInt 64)]"

text \<open>
  The same function with its one call written as a call: \<^verbatim>\<open>default_rnn_cell_hparams()\<close>
  runs on the state of the program, of any type \<open>'s\<close>, may change it and may raise, and
  the function goes on from the state the call leaves.
\<close>

definition default_hparams_call ::
    "('s \<Rightarrow> (error + hval) \<times> 's) \<Rightarrow> 's \<Rightarrow> (error + hval) \<times> 's" where
  "default_hparams_call default_rnn_cell_hparams_call s =
     (case default_rnn_cell_hparams_call s of
        (Inl e, s') \<Rightarrow> (Inl e, s')
      | (Inr rnn_cell, s') \<Rightarrow>
          (Inr (HDict [(''rnn_cell'', rnn_cell), (''max_decoding_length'', HInt 64)]), s'))"

subsection \<open>Construction\<close>

text \<open>
  \<^verbatim>\<open>__init__(self, cell=None, hparams=None, name="rnn_decoder")\<close>: the result is the
  new instance or the error that ended the construction, with the calls made. Line 32
  hands the base initialiser the name and the hyperparameters only, so the instance has
  no hyperparameters when line 38 reads them.
\<close>

definition RNNDecoderBase_init ::
    "'o collaborators \<Rightarrow> 'o option \<Rightarrow> (string \<times> hval) list option \<Rightarrow> string
      \<Rightarrow> (error + 'o rnn_decoder_base) \<times> 'o call list" where
  "RNNDecoderBase_init env cell hparams name =
     (case ModuleBase_init env name hparams of
        Some e \<Rightarrow> (Inl e, [])
      | None \<Rightarrow>
          (let self = \<lparr>self_hparams = None, self_helper = None, self_initial_state = None,
                       self_cell = None\<rparr> in
           case cell of
             Some c \<Rightarrow> (Inr (self\<lparr>self_cell := Some c\<rparr>), [])
           | None \<Rightarrow>
               (case getattr_hparams self ''rnn_cell'' of
                  Inl e \<Rightarrow> (Inl e, [])
                | Inr rnn_cell \<Rightarrow>
                    (case get_rnn_cell env rnn_cell of
                       Inl e \<Rightarrow> (Inl e, [Call_get_rnn_cell rnn_cell])
                     | Inr c \<Rightarrow> (Inr (self\<lparr>self_cell := Some c\<rparr>), [Call_get_rnn_cell rnn_cell])))))"

subsection \<open>Decoding\<close>

text \<open>
  The conditional of the tensor library takes the predicate and one callable for each
  branch, and raises a type error for a branch that is not callable; with two callables
  it gives what the chosen one returns. An argument is either a plain value or a callable,
  here given by the value it returns.
\<close>

datatype 'a branch = Value 'a | Callable 'a

definition tf_cond :: "bool \<Rightarrow> 'a branch \<Rightarrow> 'a branch \<Rightarrow> error + 'a" where
  "tf_cond pred true_fn false_fn =
     (case true_fn of
        Value _ \<Rightarrow> Inl TypeError
      | Callable t \<Rightarrow>
          (case false_fn of
             Value _ \<Rightarrow> Inl TypeError
           | Callable f \<Rightarrow> Inr (if pred then t else f)))"

text \<open>\<^verbatim>\<open>self._cell.trainable_variables()\<close>\<close>

definition cell_trainable_variables ::
    "'o collaborators \<Rightarrow> 'o rnn_decoder_base \<Rightarrow> error + 'o list" where
  "cell_trainable_variables env self =
     (case self_cell self of
        None \<Rightarrow> Inl AttributeError
      | Some c \<Rightarrow> trainable_variables env c)"

text \<open>
  \<^verbatim>\<open>_build(self, helper, initial_state)\<close>: what is returned (or the error raised), the
  instance afterwards, and the calls made. An error leaves the instance as it was when
  the error was raised. Lines 83 and 84 hand the conditional the two bounds themselves,
  \<^verbatim>\<open>None\<close> and the configured number, as plain values.
\<close>

record 'o build_outcome =
  returned :: "error + 'o \<times> 'o \<times> 'o"
  self_after :: "'o rnn_decoder_base"
  calls :: "'o call list"

definition build ::
    "'o collaborators \<Rightarrow> 'o rnn_decoder_base \<Rightarrow> 'o option \<Rightarrow> 'o option \<Rightarrow> 'o build_outcome" where
  "build env self helper initial_state =
     (let self1 = self\<lparr>self_helper := helper, self_initial_state := initial_state\<rparr> in
      case getattr_hparams self1 ''max_decoding_length'' of
        Inl e \<Rightarrow> \<lparr>returned = Inl e, self_after = self1, calls = []\<rparr>
      | Inr n \<Rightarrow>
          (case tf_cond (is_train env) (Value None) (Value (Some n)) of
             Inl e \<Rightarrow> \<lparr>returned = Inl e, self_after = self1, calls = []\<rparr>
           | Inr max_decoding_length \<Rightarrow>
               (case dynamic_decode env self1 max_decoding_length of
                  Inl e \<Rightarrow>
                    \<lparr>returned = Inl e, self_after = self1,
                     calls = [Call_dynamic_decode self1 max_decoding_length]\<rparr>
                | Inr (outputs, final_state, sequence_lengths) \<Rightarrow>
                    (case add_internal_trainable_variables env self1 of
                       Some e \<Rightarrow>
                         \<lparr>returned = Inl e, self_after = self1,
                          calls = [Call_dynamic_decode self1 max_decoding_length,
                                   Call_add_internal_trainable_variables]\<rparr>
                     | None \<Rightarrow>
                         (case cell_trainable_variables env self1 of
                            Inl e \<Rightarrow>
                              \<lparr>returned = Inl e, self_after = self1,
                               calls = [Call_dynamic_decode self1 max_decoding_length,
                                        Call_add_internal_trainable_variables]\<rparr>
                          | Inr cell_variables \<Rightarrow>
                              (case add_trainable_variable env self1 cell_variables of
                                 Some e \<Rightarrow>
                                   \<lparr>returned = Inl e, self_after = self1,
                                    calls = [Call_dynamic_decode self1 max_decoding_length,
                                             Call_add_internal_trainable_variables,
                                             Call_add_trainable_variable cell_variables]\<rparr>
                               | None \<Rightarrow>
                                   \<lparr>returned = Inr (outputs, final_state, sequence_lengths),
                                    self_after = self1,
                                    calls = [Call_dynamic_decode self1 max_decoding_length,
                                             Call_add_internal_trainable_variables,
                                             Call_add_trainable_variable cell_variables]\<rparr>))))))"

subsection \<open>The batch size and the three callbacks\<close>

definition batch_size :: "'o collaborators \<Rightarrow> 'o rnn_decoder_base \<Rightarrow> error + 'o" where
  "batch_size env self =
     (case self_helper self of
        None \<Rightarrow> Inl AttributeError
      | Some h \<Rightarrow> Inr (helper_batch_size env h))"

definition initialize :: "'o rnn_decoder_base \<Rightarrow> string option \<Rightarrow> error + 'o \<times> 'o \<times> 'o" where
  "initialize self name = Inl NotImplementedError"

definition step ::
    "'o rnn_decoder_base \<Rightarrow> 'o \<Rightarrow> 'o \<Rightarrow> 'o \<Rightarrow> string option \<Rightarrow> error + 'o \<times> 'o \<times> 'o \<times> 'o" where
  "step self time inputs state name = Inl NotImplementedError"

definition finalize ::
    "'o rnn_decoder_base \<Rightarrow> 'o \<Rightarrow> 'o \<Rightarrow> 'o \<Rightarrow> error + 'o \<times> 'o" where
  "finalize self outputs final_state sequence_lengths = Inl NotImplementedError"

section \<open>Concrete collaborators for the examples\<close>

text \<open>
  Collaborators that all return: a base initialiser that returns when it is handed the
  name, a cell factory that hands out cell \<open>7\<close>, a driver that returns the outputs
  \<open>(10, 11, 12)\<close>, with references as natural numbers.
\<close>

definition example_env :: "bool \<Rightarrow> nat collaborators" where
  "example_env train =
     \<lparr>default_rnn_cell_hparams = HDict [(''kwargs'', HDict [(''num_units'', HInt 64)])],
      ModuleBase_init = (\<lambda>n h. None),
      get_rnn_cell = (\<lambda>h. Inr 7),
      is_train = train,
      dynamic_decode = (\<lambda>d b. Inr (10, 11, 12)),
      add_internal_trainable_variables = (\<lambda>d. None),
      trainable_variables = (\<lambda>c. Inr [21, 22]),
      add_trainable_variable = (\<lambda>d vs. None),
      helper_batch_size = (\<lambda>h. 32)\<rparr>"

text \<open>
  A decoder with cell \<open>3\<close> whose hyperparameters are set to the defaults, as a subclass
  that initialises its base sets them.
\<close>

definition example_decoder :: "nat rnn_decoder_base" where
  "example_decoder =
     \<lparr>self_hparams = Some (default_hparams (example_env False)),
      self_helper = None,
      self_initial_state = None,
      self_cell = Some 3\<rparr>"


definition counting_cell_defaults :: "nat \<Rightarrow> (error + hval) \<times> nat" where
  "counting_cell_defaults s = (Inr (HDict [(''calls'', HInt (int s))]), Suc s)"

section \<open>Facts about the models\<close>


lemma default_hparams_call_agrees:
  "c s = (Inr (default_rnn_cell_hparams env), s')
     \<Longrightarrow> default_hparams_call c s = (Inr (default_hparams env), s')"
  by (simp add: default_hparams_call_def default_hparams_def)

lemma default_hparams_call_counting:
  "fst (default_hparams_call counting_cell_defaults 0)
     \<noteq> fst (default_hparams_call counting_cell_defaults 1)
   \<and> snd (default_hparams_call counting_cell_defaults 0) = 1"
  by (simp add: default_hparams_call_def counting_cell_defaults_def)

lemma tf_cond_values: "tf_cond pred (Value a) (Value b) = Inl TypeError"
  by (simp add: tf_cond_def)

lemma build_raises:
  "build env self helper initial_state =
     \<lparr>returned = (case getattr_hparams self ''max_decoding_length'' of
                    Inl e \<Rightarrow> Inl e | Inr n \<Rightarrow> Inl TypeError),
      self_after = self\<lparr>self_helper := helper, self_initial_state := initial_state\<rparr>,
      calls = []\<rparr>"
  by (simp add: build_def Let_def tf_cond_values getattr_hparams_def
        split: option.splits sum.splits)

lemma getattr_hparams_error:
  "getattr_hparams self k = Inl e \<Longrightarrow> e = AttributeError"
  by (auto simp: getattr_hparams_def split: option.splits)

section \<open>Properties\<close>

text \<open>
  C1, what the code does: no decode invocation hands the driver a bound, in either mode,
  since the driver is never called. The conditional of lines 83 and 84 is given
  \<^verbatim>\<open>None\<close> and the configured number where it takes callables, and the invocation
  ends there with a type error: so it does for a decoder with \<open>max_decoding_length = 64\<close>
  under inference and under training.
\<close>

theorem build_passes_no_bound:
  "maximum_iterations (calls (build env self helper initial_state)) = []
   \<and> returned (build (example_env False) example_decoder (Some 1) (Some 2)) = Inl TypeError
   \<and> returned (build (example_env True) example_decoder (Some 1) (Some 2)) = Inl TypeError"
  by (simp add: build_raises getattr_hparams_def example_decoder_def default_hparams_def)

text \<open>
  C2, what the code does: the cell factory is never called. Without a cell the
  construction always fails, with the error of the base initialiser or, when that
  returns, with an attribute error at line 38, where the instance has no hyperparameters.
  With a cell the construction stores that cell, provided the base initialiser returns.
\<close>

theorem init_never_calls_factory:
  "RNNDecoderBase_init env None hparams name
     = (Inl (case ModuleBase_init env name hparams of Some e \<Rightarrow> e | None \<Rightarrow> AttributeError), [])
   \<and> RNNDecoderBase_init env (Some c) hparams name
     = (case ModuleBase_init env name hparams of
          Some e \<Rightarrow> (Inl e, [])
        | None \<Rightarrow>
            (Inr \<lparr>self_hparams = None, self_helper = None, self_initial_state = None,
                  self_cell = Some c\<rparr>, []))
   \<and> RNNDecoderBase_init (example_env False) None None ''rnn_decoder'' = (Inl AttributeError, [])"
  by (simp add: RNNDecoderBase_init_def getattr_hparams_def example_env_def split: option.splits)

text \<open>
  C3: each of \<open>initialize\<close>, \<open>step\<close> and \<open>finalize\<close> of the base class fails with the
  not-implemented error, whatever the instance and the arguments, and each on its own.
\<close>

theorem callbacks_not_implemented:
  "initialize self name = Inl NotImplementedError
   \<and> step self' time inputs state name' = Inl NotImplementedError
   \<and> finalize self'' outputs final_state sequence_lengths = Inl NotImplementedError"
  by (simp add: initialize_def step_def finalize_def)

text \<open>
  C4: the default hyperparameters are a mapping with exactly the two keys \<open>rnn_cell\<close> and
  \<open>max_decoding_length\<close>, and \<open>max_decoding_length\<close> is bound to 64.
\<close>

theorem default_hparams_keys:
  "keys (default_hparams env) = [''rnn_cell'', ''max_decoding_length'']
   \<and> lookup (default_hparams env) ''max_decoding_length'' = Some (HInt 64)"
  by (simp add: default_hparams_def)




text \<open>
  C7, what the code does: no decode invocation registers parameters; it makes no call at
  all, and the instance differs from the one before in the helper and the initial state
  only.
\<close>

theorem build_registers_nothing:
  "filter is_registration (calls (build env self helper initial_state)) = []
   \<and> self_after (build env self helper initial_state)
       = self\<lparr>self_helper := helper, self_initial_state := initial_state\<rparr>
   \<and> calls (build (example_env False) example_decoder (Some 1) (Some 2)) = []"
  by (simp add: build_raises)

text \<open>
  C8, as the claim states it, fails: after a decode invocation has ended, here with the
  type error of lines 83 and 84, the decoder still holds the helper and the initial state
  of that invocation.
\<close>

theorem build_retains_helper_counterexample:
  "returned (build (example_env False) example_decoder (Some 1) (Some 2)) = Inl TypeError
   \<and> self_helper (self_after (build (example_env False) example_decoder (Some 1) (Some 2))) = Some 1
   \<and> self_initial_state (self_after (build (example_env False) example_decoder (Some 1) (Some 2)))
       = Some 2"
  by (simp add: build_def Let_def tf_cond_def getattr_hparams_def example_decoder_def
        default_hparams_def)

text \<open>
  C8, amended: a decode invocation stores its helper and its initial state on the decoder at
  its start, and they stay stored after the invocation; nothing clears them, and the next
  invocation stores its own in their place.
\<close>

theorem build_stores_helper:
  "self_helper (self_after (build env self helper initial_state)) = helper
   \<and> self_initial_state (self_after (build env self helper initial_state)) = initial_state
   \<and> self_helper (self_after (build env (self_after (build env self helper initial_state))
         helper' initial_state')) = helper'
   \<and> self_initial_state (self_after (build env (self_after (build env self helper initial_state))
         helper' initial_state')) = initial_state'"
proof -
  have "\<And>d h s. self_helper (self_after (build env d h s)) = h
                 \<and> self_initial_state (self_after (build env d h s)) = s"
    by (auto simp: build_def Let_def split: sum.splits option.splits prod.splits)
  then show ?thesis by simp
qed

text \<open>
  C9, what the code does: the example configuration (\<open>num_units = 1000\<close>,
  \<open>embedding_dim = 500\<close>) carries \<open>num_units = 1000\<close> in the \<open>kwargs\<close> of
  \<open>decoder['rnn_cell']\<close> and \<open>attention_layer_size = 1000\<close> in the \<open>attention\<close>
  mapping, but constructing a decoder from \<open>decoder['rnn_cell']\<close> fails without a call of
  the cell factory, so no cell is produced.
\<close>

theorem config_decoder_cell:
  "num_units = 1000 \<and> embedding_dim = 500
   \<and> lookup_path decoder [''rnn_cell'', ''kwargs'', ''num_units''] = Some (HInt 1000)
   \<and> lookup_path decoder [''attention'', ''attention_layer_size''] = Some (HInt 1000)
   \<and> (\<exists>cfg e. lookup decoder ''rnn_cell'' = Some cfg
         \<and> RNNDecoderBase_init env None (Some [(''rnn_cell'', cfg)]) name = (Inl e, []))"
  by (simp add: num_units_def embedding_dim_def decoder_def RNNDecoderBase_init_def
        getattr_hparams_def split: option.splits)

text \<open>
  C10: reading \<open>batch_size\<close> of a decoder whose helper is \<open>None\<close> fails with an
  attribute error, and every decoder that the constructor hands out has the helper
  \<open>None\<close>, so that reading its \<open>batch_size\<close> before any decode invocation fails.
\<close>

theorem batch_size_before_build:
  "batch_size env (self\<lparr>self_helper := None\<rparr>) = Inl AttributeError
   \<and> (RNNDecoderBase_init env cell hparams name = (Inr d, cs)
        \<longrightarrow> self_helper d = None \<and> batch_size env d = Inl AttributeError)"
  by (auto simp: batch_size_def RNNDecoderBase_init_def Let_def getattr_hparams_def
        split: option.splits sum.splits)

theorem batch_size_before_build_witness:
  "RNNDecoderBase_init (example_env False) (Some 3) None ''rnn_decoder''
     = (Inr \<lparr>self_hparams = None, self_helper = None, self_initial_state = None,
             self_cell = Some 3\<rparr>, [])
   \<and> batch_size (example_env False)
        \<lparr>self_hparams = None, self_helper = None, self_initial_state = None, self_cell = Some 3\<rparr>
       = Inl AttributeError"
proof -
  have i: "RNNDecoderBase_init (example_env False) (Some 3) None ''rnn_decoder''
     = (Inr \<lparr>self_hparams = None, self_helper = None, self_initial_state = None,
             self_cell = Some 3\<rparr>, [])"
    by (simp add: RNNDecoderBase_init_def example_env_def)
  show ?thesis
    using i batch_size_before_build [of "example_env False" example_decoder "Some 3" None
        "''rnn_decoder''"
        "\<lparr>self_hparams = None, self_helper = None, self_initial_state = None,
          self_cell = Some 3\<rparr>" "[]"]
    by simp
qed

end
